theory Spec2Isabelle
  imports Main
begin

section \<open>The dependency-injection container of src/di/container.ts\<close>

text \<open>
  The container is a class with two private maps, \<^verbatim>\<open>singletons\<close> and
  \<^verbatim>\<open>factories\<close>, and five methods. Its methods mutate the maps, mutate the
  \<^verbatim>\<open>Singleton\<close> objects the first map refers to, call the stored factory
  closures, and throw. The embedding makes each of these explicit:
  \<^item> JavaScript values are a datatype in which an object is its reference, so that HOL
    equality on values is strict equality (\<^verbatim>\<open>===\<close>): primitives by value, objects
    by identity;
  \<^item> a \<^verbatim>\<open>throw\<close> is the \<open>Inl\<close> of a sum, a normal return its \<open>Inr\<close>;
  \<^item> every method takes the program state and returns the new one;
  \<^item> a factory closure is a reference into a table of functions from state to outcome and
    state. The table is a parameter of the methods that call a factory, so a factory may do
    anything a total function of the whole state can do, including calling the container
    again, as the factories of src/di/users.ts do.
\<close>

subsection \<open>Values\<close>

text \<open>
  Numbers are restricted to the integers: floating point (and with it \<^verbatim>\<open>NaN\<close>, the
  one value not strictly equal to itself) is outside the embedding.
\<close>

datatype jsval =
    Undefined
  | Null
  | Bool bool
  | Num int
  | Str string
  | Obj nat

text \<open>What \<^verbatim>\<open>!v\<close> negates: the falsy values are undefined, null, false, 0 and "".\<close>

definition truthy :: "jsval \<Rightarrow> bool" where
  "truthy v =
     (case v of
        Undefined \<Rightarrow> False
      | Null \<Rightarrow> False
      | Bool b \<Rightarrow> b
      | Num n \<Rightarrow> n \<noteq> 0
      | Str t \<Rightarrow> t \<noteq> []
      | Obj r \<Rightarrow> True)"

text \<open>What can be thrown: \<^verbatim>\<open>new Error(message)\<close>, or any other value.\<close>

datatype thrown = Error string | Thrown jsval

type_synonym outcome = "thrown + jsval"

subsection \<open>State\<close>

type_synonym addr = nat
type_synonym fid = nat

text \<open>
  \<^verbatim>\<open>type Singleton<T> = { instance?: T; factory: Factory<T> }\<close>. The optional
  property is absent (\<open>None\<close>) or holds a value; reading an absent property gives
  \<^verbatim>\<open>undefined\<close>.
\<close>

record singleton =
  inst :: "jsval option"
  factory :: fid

definition readInstance :: "singleton \<Rightarrow> jsval" where
  "readInstance sg = (case inst sg of None \<Rightarrow> Undefined | Some v \<Rightarrow> v)"

text \<open>
  The two maps of the container, the store of the \<^verbatim>\<open>Singleton\<close> objects the first
  map holds references to (\<open>fresh\<close> is the next unused reference), and \<open>world\<close>:
  everything else of the program that a factory can read and write.
\<close>

record 'w state =
  singletons :: "string \<rightharpoonup> addr"
  factories :: "string \<rightharpoonup> fid"
  store :: "addr \<Rightarrow> singleton"
  fresh :: addr
  world :: 'w

type_synonym 'w fntable = "fid \<Rightarrow> 'w state \<Rightarrow> outcome \<times> 'w state"

text \<open>\<^verbatim>\<open>new DIContainer()\<close>: both maps empty.\<close>

definition newContainer :: "'w \<Rightarrow> 'w state" where
  "newContainer w =
     \<lparr>singletons = Map.empty, factories = Map.empty,
      store = (\<lambda>a. \<lparr>inst = None, factory = 0\<rparr>), fresh = 0, world = w\<rparr>"

subsection \<open>The methods\<close>

text \<open>
  \<^verbatim>\<open>registerSingleton(key, factory) { this.singletons.set(key, { factory }); }\<close>
  The object literal is a new object with no \<^verbatim>\<open>instance\<close> property. A method of type
  \<^verbatim>\<open>void\<close> returns \<^verbatim>\<open>undefined\<close>.
\<close>

definition registerSingleton :: "string \<Rightarrow> fid \<Rightarrow> 'w state \<Rightarrow> outcome \<times> 'w state" where
  "registerSingleton key f s =
     (Inr Undefined,
      s\<lparr>singletons := (singletons s)(key \<mapsto> fresh s),
        store := (store s)(fresh s := \<lparr>inst = None, factory = f\<rparr>),
        fresh := Suc (fresh s)\<rparr>)"

text \<open>\<^verbatim>\<open>registerFactory(key, factory) { this.factories.set(key, factory); }\<close>\<close>

definition registerFactory :: "string \<Rightarrow> fid \<Rightarrow> 'w state \<Rightarrow> outcome \<times> 'w state" where
  "registerFactory key f s = (Inr Undefined, s\<lparr>factories := (factories s)(key \<mapsto> f)\<rparr>)"

text \<open>
  \<^verbatim>\<open>
  getSingleton(key) {
    const singleton = this.singletons.get(key);
    if (!singleton) { throw new Error(`Singleton not registered: ${key}`); }
    if (!singleton.instance) { singleton.instance = singleton.factory(); }
    return singleton.instance;
  }
  \<close>
  \<open>singleton\<close> is a reference: the assignment after the factory call writes to the object
  found before the call, in the state the factory left. The factory is read from that
  object before the call. Factories are of type \<^verbatim>\<open>() => T\<close> and take nothing from
  the call but the state. Keys are only looked up and appended to a message.
\<close>

definition getSingleton :: "'w fntable \<Rightarrow> string \<Rightarrow> 'w state \<Rightarrow> outcome \<times> 'w state" where
  "getSingleton fns key s =
     (case singletons s key of
        None \<Rightarrow> (Inl (Error (''Singleton not registered: '' @ key)), s)
      | Some a \<Rightarrow>
          if \<not> truthy (readInstance (store s a)) then
            (case fns (factory (store s a)) s of
               (Inl e, s') \<Rightarrow> (Inl e, s')
             | (Inr v, s') \<Rightarrow>
                 (Inr v, s'\<lparr>store := (store s')(a := (store s' a)\<lparr>inst := Some v\<rparr>)\<rparr>))
          else (Inr (readInstance (store s a)), s))"

text \<open>
  \<^verbatim>\<open>
  getFactory(key) {
    const factory = this.factories.get(key);
    if (!factory) { throw new Error(`Factory not registered: ${key}`); }
    return factory();
  }
  \<close>
\<close>

definition getFactory :: "'w fntable \<Rightarrow> string \<Rightarrow> 'w state \<Rightarrow> outcome \<times> 'w state" where
  "getFactory fns key s =
     (case factories s key of
        None \<Rightarrow> (Inl (Error (''Factory not registered: '' @ key)), s)
      | Some f \<Rightarrow> fns f s)"

text \<open>\<^verbatim>\<open>reset() { this.singletons.clear(); this.factories.clear(); }\<close>\<close>

definition reset :: "'w state \<Rightarrow> outcome \<times> 'w state" where
  "reset s = (Inr Undefined, s\<lparr>singletons := Map.empty, factories := Map.empty\<rparr>)"

subsection \<open>Sequences of calls\<close>

text \<open>
  One statement after another: the second runs in the state the first left, unless the
  first threw.
\<close>

definition andThen ::
  "('w state \<Rightarrow> outcome \<times> 'w state) \<Rightarrow> ('w state \<Rightarrow> outcome \<times> 'w state) \<Rightarrow>
   'w state \<Rightarrow> outcome \<times> 'w state" where
  "andThen m k s = (case m s of (Inl e, s') \<Rightarrow> (Inl e, s') | (Inr v, s') \<Rightarrow> k s')"

text \<open>A registration call of either mode, and a list of them run in order.\<close>

datatype registration = AsSingleton string fid | AsFactory string fid

fun register :: "registration \<Rightarrow> 'w state \<Rightarrow> 'w state" where
  "register (AsSingleton key f) s = snd (registerSingleton key f s)"
| "register (AsFactory key f) s = snd (registerFactory key f s)"

definition registerAll :: "registration list \<Rightarrow> 'w state \<Rightarrow> 'w state" where
  "registerAll rs s = fold register rs s"

subsection \<open>Factories used as concrete inputs\<close>

text \<open>
  The world of these factories is one counter, which each of them increments when it is
  called: it is the call count a test spy would keep.
  \<^item> \<open>newObject\<close> is \<^verbatim>\<open>() => ({})\<close>: a new object at every call;
  \<^item> \<open>alwaysZero\<close> is \<^verbatim>\<open>() => 0\<close>;
  \<^item> \<open>nullUntilReady\<close> is \<^verbatim>\<open>() => (calls++ < 2 ? null : {})\<close>: null at its
    first two calls, a new object afterwards;
  \<^item> \<open>refuse\<close> is \<^verbatim>\<open>() => { throw new Error("connection refused"); }\<close>.
\<close>

definition newObject :: "nat state \<Rightarrow> outcome \<times> nat state" where
  "newObject s = (Inr (Obj (world s)), s\<lparr>world := Suc (world s)\<rparr>)"

definition alwaysZero :: "nat state \<Rightarrow> outcome \<times> nat state" where
  "alwaysZero s = (Inr (Num 0), s\<lparr>world := Suc (world s)\<rparr>)"

definition nullUntilReady :: "nat state \<Rightarrow> outcome \<times> nat state" where
  "nullUntilReady s =
     (Inr (if world s < 2 then Null else Obj (world s)), s\<lparr>world := Suc (world s)\<rparr>)"

definition refuse :: "nat state \<Rightarrow> outcome \<times> nat state" where
  "refuse s = (Inl (Error ''connection refused''), s\<lparr>world := Suc (world s)\<rparr>)"

text \<open>
  A factory that resolves another singleton from the container before it constructs its
  own object, as the use-case and controller factories of src/di/users.ts do:
  \<^verbatim>\<open>() => { const dep = container.getSingleton(key); return new C(dep); }\<close>
\<close>

definition dependingOn :: "nat fntable \<Rightarrow> string \<Rightarrow> nat state \<Rightarrow> outcome \<times> nat state" where
  "dependingOn fns key = andThen (getSingleton fns key) newObject"

text \<open>The function table of the examples: the closures above, by reference.\<close>

definition baseFns :: "nat fntable" where
  "baseFns f =
     (if f = 0 then newObject
      else if f = 1 then alwaysZero
      else if f = 2 then nullUntilReady
      else refuse)"

text \<open>
  A factory that, at its first call, resolves the key it is itself registered under and
  then throws, and at every later call constructs an object:
  \<^verbatim>\<open>
  () => {
    if (calls++ === 0) { container.getSingleton(key); throw new Error("connection refused"); }
    return {};
  }
  \<close>
  The nested \<^verbatim>\<open>getSingleton\<close> calls this same closure again, now with one call counted.
  \<open>selfFns\<close> holds the closure under the reference 30, unrolled twice; the unrolling is
  exact, since the closure uses the table at its first call only
  (\<open>selfFns_is_the_closure\<close> below).
\<close>

definition resolvesItselfThenThrows ::
  "nat fntable \<Rightarrow> string \<Rightarrow> nat state \<Rightarrow> outcome \<times> nat state" where
  "resolvesItselfThenThrows fns key s =
     (if world s = 0 then
        andThen (getSingleton fns key) (\<lambda>s'. (Inl (Error ''connection refused''), s'))
          (s\<lparr>world := 1\<rparr>)
      else newObject s)"

definition nestedFns :: "nat fntable" where
  "nestedFns f = (if f = 30 then resolvesItselfThenThrows baseFns ''Cache'' else baseFns f)"

definition selfFns :: "nat fntable" where
  "selfFns f = (if f = 30 then resolvesItselfThenThrows nestedFns ''Cache'' else baseFns f)"

subsection \<open>The wiring of src/di/users.ts\<close>

text \<open>
  \<^verbatim>\<open>initializeUserDI\<close> registers six singletons in three layers: two repositories
  (\<^verbatim>\<open>() => new InMemoryUserRepository()\<close>, \<^verbatim>\<open>() => new ExternalApiUserRepository()\<close>),
  two use cases whose factories resolve a repository, and two controllers whose factories
  resolve a use case. The factories are the references 20 to 25. A factory of one layer
  calls the container with the table of the layers below, which is the whole table as
  long as the key it resolves holds a factory of a lower layer. The objects constructed
  are opaque: only their identity is modelled.
\<close>

definition repositoryFns :: "nat fntable" where
  "repositoryFns f = (if f = 20 \<or> f = 21 then newObject else baseFns f)"

definition useCaseFns :: "nat fntable" where
  "useCaseFns f =
     (if f = 22 then dependingOn repositoryFns ''InternalUserRepository''
      else if f = 23 then dependingOn repositoryFns ''ExternalUserRepository''
      else repositoryFns f)"

definition controllerFns :: "nat fntable" where
  "controllerFns f =
     (if f = 24 then dependingOn useCaseFns ''InternalUserUseCase''
      else if f = 25 then dependingOn useCaseFns ''ExternalUserUseCase''
      else useCaseFns f)"

definition initializeUserDI :: "nat state \<Rightarrow> outcome \<times> nat state" where
  "initializeUserDI =
     andThen (registerSingleton ''InternalUserRepository'' 20)
    (andThen (registerSingleton ''ExternalUserRepository'' 21)
    (andThen (registerSingleton ''InternalUserUseCase'' 22)
    (andThen (registerSingleton ''ExternalUserUseCase'' 23)
    (andThen (registerSingleton ''InternalUserController'' 24)
             (registerSingleton ''ExternalUserController'' 25)))))"

definition getInternalUserController :: "nat state \<Rightarrow> outcome \<times> nat state" where
  "getInternalUserController = getSingleton controllerFns ''InternalUserController''"

section \<open>Properties\<close>

subsection \<open>Basic facts\<close>

lemma truthy_simps [simp]:
  "truthy Undefined = False" "truthy Null = False" "truthy (Bool b) = b"
  "truthy (Num n) = (n \<noteq> 0)" "truthy (Str t) = (t \<noteq> [])" "truthy (Obj r) = True"
  by (simp_all add: truthy_def)

lemma readInstance_simps [simp]:
  "readInstance \<lparr>inst = None, factory = f\<rparr> = Undefined"
  "readInstance \<lparr>inst = Some v, factory = f\<rparr> = v"
  "readInstance (sg\<lparr>inst := Some v\<rparr>) = v"
  by (simp_all add: readInstance_def)

lemma absent_not_truthy: "inst sg = None \<Longrightarrow> \<not> truthy (readInstance sg)"
  by (simp add: readInstance_def)

text \<open>The three ways through \<open>getSingleton\<close>, and the two through \<open>getFactory\<close>.\<close>

lemma getSingleton_unregistered:
  "singletons s key = None \<Longrightarrow>
   getSingleton fns key s = (Inl (Error (''Singleton not registered: '' @ key)), s)"
  by (simp add: getSingleton_def)

lemma getSingleton_cached:
  "singletons s key = Some a \<Longrightarrow> truthy (readInstance (store s a)) \<Longrightarrow>
   getSingleton fns key s = (Inr (readInstance (store s a)), s)"
  by (simp add: getSingleton_def)

lemma getSingleton_invokes:
  "singletons s key = Some a \<Longrightarrow> \<not> truthy (readInstance (store s a)) \<Longrightarrow>
   fns (factory (store s a)) s = (r, s') \<Longrightarrow>
   getSingleton fns key s =
     (case r of
        Inl e \<Rightarrow> (Inl e, s')
      | Inr v \<Rightarrow> (Inr v, s'\<lparr>store := (store s')(a := (store s' a)\<lparr>inst := Some v\<rparr>)\<rparr>))"
  by (simp add: getSingleton_def split: sum.splits)

lemma getFactory_unregistered:
  "factories s key = None \<Longrightarrow>
   getFactory fns key s = (Inl (Error (''Factory not registered: '' @ key)), s)"
  by (simp add: getFactory_def)

lemma getFactory_registered:
  "factories s key = Some f \<Longrightarrow> getFactory fns key s = fns f s"
  by (simp add: getFactory_def)

lemma registerSingleton_fields [simp]:
  "fst (registerSingleton key f s) = Inr Undefined"
  "singletons (snd (registerSingleton key f s)) = (singletons s)(key \<mapsto> fresh s)"
  "factories (snd (registerSingleton key f s)) = factories s"
  "store (snd (registerSingleton key f s)) = (store s)(fresh s := \<lparr>inst = None, factory = f\<rparr>)"
  "fresh (snd (registerSingleton key f s)) = Suc (fresh s)"
  "world (snd (registerSingleton key f s)) = world s"
  by (simp_all add: registerSingleton_def)

lemma registerFactory_fields [simp]:
  "fst (registerFactory key f s) = Inr Undefined"
  "singletons (snd (registerFactory key f s)) = singletons s"
  "factories (snd (registerFactory key f s)) = (factories s)(key \<mapsto> f)"
  "store (snd (registerFactory key f s)) = store s"
  "fresh (snd (registerFactory key f s)) = fresh s"
  "world (snd (registerFactory key f s)) = world s"
  by (simp_all add: registerFactory_def)

lemma reset_fields [simp]:
  "fst (reset s) = Inr Undefined"
  "singletons (snd (reset s)) = Map.empty"
  "factories (snd (reset s)) = Map.empty"
  "store (snd (reset s)) = store s"
  "fresh (snd (reset s)) = fresh s"
  "world (snd (reset s)) = world s"
  by (simp_all add: reset_def)

lemma getSingleton_after_register:
  "fns f (snd (registerSingleton key f s)) = (r, s') \<Longrightarrow>
   getSingleton fns key (snd (registerSingleton key f s)) =
     (case r of
        Inl e \<Rightarrow> (Inl e, s')
      | Inr v \<Rightarrow>
          (Inr v, s'\<lparr>store := (store s')(fresh s := (store s' (fresh s))\<lparr>inst := Some v\<rparr>)\<rparr>))"
  by (rule getSingleton_invokes [where a = "fresh s", THEN trans]) simp_all

text \<open>
  The first resolution of a singleton whose factory returns normally, and the resolutions
  after it when the value returned is truthy: the instance is kept and returned, whatever
  the function table, and the state no longer changes.
\<close>

lemma getSingleton_first_resolution:
  assumes "singletons s key = Some a"
    and "inst (store s a) = None"
    and "fns (factory (store s a)) s = (Inr v, s')"
  shows "getSingleton fns key s =
      (Inr v, s'\<lparr>store := (store s')(a := (store s' a)\<lparr>inst := Some v\<rparr>)\<rparr>)"
  using assms getSingleton_invokes [of s key a fns "Inr v" s']
  by (simp add: absent_not_truthy)

lemma getSingleton_truthy_instance_is_stable:
  assumes "singletons s key = Some a"
    and "inst (store s a) = None"
    and "fns (factory (store s a)) s = (Inr v, s')"
    and "singletons s' key = Some a"
    and "truthy v"
    and "getSingleton fns key s = (r1, s1)"
  shows "r1 = Inr v \<and> getSingleton fns' key s1 = (Inr v, s1)"
proof -
  from assms(1-3) have first: "getSingleton fns key s =
      (Inr v, s'\<lparr>store := (store s')(a := (store s' a)\<lparr>inst := Some v\<rparr>)\<rparr>)"
    by (rule getSingleton_first_resolution)
  with assms(6) have s1: "s1 = s'\<lparr>store := (store s')(a := (store s' a)\<lparr>inst := Some v\<rparr>)\<rparr>"
    and r1: "r1 = Inr v"
    by simp_all
  have "singletons s1 key = Some a" "readInstance (store s1 a) = v"
    using assms(4) by (simp_all add: s1)
  with assms(5) have "getSingleton fns' key s1 = (Inr v, s1)"
    using getSingleton_cached [of s1 key a fns'] by simp
  with r1 show ?thesis by simp
qed

text \<open>
  The wiring of src/di/users.ts, run: resolving the controller constructs the repository
  (object 0), the use case (object 1) and the controller (object 2); resolving it again
  constructs nothing and gives the same controller.
\<close>

lemma initializeUserDI_state:
  "initializeUserDI (newContainer 0) =
     (Inr Undefined,
      \<lparr>singletons =
         [''InternalUserRepository'' \<mapsto> 0, ''ExternalUserRepository'' \<mapsto> 1,
          ''InternalUserUseCase'' \<mapsto> 2, ''ExternalUserUseCase'' \<mapsto> 3,
          ''InternalUserController'' \<mapsto> 4, ''ExternalUserController'' \<mapsto> 5],
       factories = Map.empty,
       store = (\<lambda>a. \<lparr>inst = None, factory = 0\<rparr>)
         (0 := \<lparr>inst = None, factory = 20\<rparr>, 1 := \<lparr>inst = None, factory = 21\<rparr>,
          2 := \<lparr>inst = None, factory = 22\<rparr>, 3 := \<lparr>inst = None, factory = 23\<rparr>,
          4 := \<lparr>inst = None, factory = 24\<rparr>, 5 := \<lparr>inst = None, factory = 25\<rparr>),
       fresh = 6, world = 0\<rparr>)"
  by (simp add: initializeUserDI_def andThen_def registerSingleton_def newContainer_def
      eval_nat_numeral)

lemma getInternalUserController_example:
  "(let s0 = snd (initializeUserDI (newContainer 0));
        (r1, s1) = getInternalUserController s0;
        (r2, s2) = getInternalUserController s1;
        (r3, s3) = getSingleton controllerFns ''InternalUserRepository'' s2
    in world s0 = 0 \<and> r1 = Inr (Obj 2) \<and> world s1 = 3 \<and> r2 = Inr (Obj 2) \<and> world s2 = 3 \<and>
       r3 = Inr (Obj 0) \<and> world s3 = 3)"
  by (simp add: initializeUserDI_state getInternalUserController_def getSingleton_def
      controllerFns_def useCaseFns_def repositoryFns_def dependingOn_def andThen_def
      newObject_def)

subsection \<open>Singleton registrations\<close>

text \<open>
  C1. Two consecutive \<open>getSingleton\<close> calls with a key that is registered as a singleton
  and has been resolved before, with no reset and no registration in between, are to
  return the identical instance, whatever the factory returns. The code keeps an instance
  only when it is truthy (\<^verbatim>\<open>if (!singleton.instance)\<close>). Evaluated: the key
  "Connection" is registered with the factory \<open>nullUntilReady\<close> and resolved three times.
  The first call returns null and stores it; the second calls the factory again and
  returns null; the third calls it again and returns object 2. The second and the third
  call return different values, and the registration is the same throughout.
\<close>

theorem getSingleton_falsy_instance_not_kept:
  "(let s0 = snd (registerSingleton ''Connection'' 2 (newContainer 0));
        (r1, s1) = getSingleton baseFns ''Connection'' s0;
        (r2, s2) = getSingleton baseFns ''Connection'' s1;
        (r3, s3) = getSingleton baseFns ''Connection'' s2
    in r1 = Inr Null \<and> r2 = Inr Null \<and> r3 = Inr (Obj 2) \<and> r2 \<noteq> r3 \<and>
       singletons s1 = singletons s0 \<and> singletons s2 = singletons s0 \<and>
       inst (store s1 0) = Some Null)"
  by (simp add: registerSingleton_def getSingleton_def baseFns_def nullUntilReady_def
      newContainer_def)

text \<open>
  C2. The factory of a singleton is to have been called zero times after registration,
  once after the first \<open>getSingleton\<close> and still once after the second, whatever it
  returns. Evaluated: the key "RetryLimit" is registered with the factory \<open>alwaysZero\<close>, whose
  calls the world counts. The count is 0 after registration, 1 after the first
  \<open>getSingleton\<close> and 2 after the second: the instance 0 is falsy, so the second call
  takes the branch that calls the factory.
\<close>

theorem getSingleton_falsy_factory_called_again:
  "(let s0 = snd (registerSingleton ''RetryLimit'' 1 (newContainer 0));
        (r1, s1) = getSingleton baseFns ''RetryLimit'' s0;
        (r2, s2) = getSingleton baseFns ''RetryLimit'' s1
    in world s0 = 0 \<and> r1 = Inr (Num 0) \<and> world s1 = 1 \<and> r2 = Inr (Num 0) \<and> world s2 = 2 \<and>
       singletons s1 = singletons s0)"
  by (simp add: registerSingleton_def getSingleton_def baseFns_def alwaysZero_def newContainer_def)

text \<open>
  C6. \<open>registerSingleton\<close> with a key, registered before or not, returns normally. The
  key then refers to a new object that holds the new factory and no instance, so the next
  \<open>getSingleton\<close> with the key calls the new factory: it returns what the new factory
  returns and keeps it in the new object, or throws what the new factory throws.
\<close>

theorem registerSingleton_replaces_registration:
  assumes "registerSingleton key g s = (r0, s1)"
    and "fns g s1 = (r, s2)"
  shows "r0 = Inr Undefined \<and>
    singletons s1 key = Some (fresh s) \<and>
    store s1 (fresh s) = \<lparr>inst = None, factory = g\<rparr> \<and>
    getSingleton fns key s1 =
      (case r of
         Inl e \<Rightarrow> (Inl e, s2)
       | Inr v \<Rightarrow>
           (Inr v, s2\<lparr>store := (store s2)(fresh s := (store s2 (fresh s))\<lparr>inst := Some v\<rparr>)\<rparr>))"
proof -
  from assms(1) have s1: "s1 = snd (registerSingleton key g s)" and r0: "r0 = Inr Undefined"
    by (simp_all add: registerSingleton_def)
  from assms(2) have "fns g (snd (registerSingleton key g s)) = (r, s2)"
    by (simp add: s1)
  from getSingleton_after_register [where fns = fns and f = g and key = key and s = s, OF this]
  show ?thesis
    by (simp add: s1 r0)
qed

text \<open>
  Registered with \<open>newObject\<close> and resolved (the instance is object 0), then registered
  again with a factory \<open>nullUntilReady\<close>: the next resolution is the new factory's null.
\<close>

theorem registerSingleton_replaces_registration_witness:
  "fst (getSingleton baseFns ''A'' (snd (registerSingleton ''A'' 0 (newContainer 0)))) =
     Inr (Obj 0) \<and>
   fst (getSingleton baseFns ''A''
     (snd (getSingleton baseFns ''A'' (snd (registerSingleton ''A'' 0 (newContainer 0)))))) =
     Inr (Obj 0) \<and>
   fst (registerSingleton ''A'' 2
     (snd (getSingleton baseFns ''A'' (snd (registerSingleton ''A'' 0 (newContainer 0)))))) =
     Inr Undefined \<and>
   fst (getSingleton baseFns ''A'' (snd (registerSingleton ''A'' 2
     (snd (getSingleton baseFns ''A'' (snd (registerSingleton ''A'' 0 (newContainer 0)))))))) =
     Inr Null"
proof -
  let ?s = "snd (getSingleton baseFns ''A'' (snd (registerSingleton ''A'' 0 (newContainer (0::nat)))))"
  let ?s1 = "snd (registerSingleton ''A'' 2 ?s)"
  have old: "fst (getSingleton baseFns ''A'' (snd (registerSingleton ''A'' 0 (newContainer 0)))) =
      Inr (Obj 0)"
    "fst (getSingleton baseFns ''A'' ?s) = Inr (Obj 0)"
    by (simp_all add: getSingleton_def baseFns_def newObject_def newContainer_def)
  have w: "world ?s = 1"
    by (simp add: getSingleton_def baseFns_def newObject_def newContainer_def)
  have a: "registerSingleton ''A'' 2 ?s = (Inr Undefined, ?s1)"
    by (simp add: registerSingleton_def)
  have b: "baseFns 2 ?s1 = (Inr Null, ?s1\<lparr>world := 2\<rparr>)"
    by (simp add: baseFns_def nullUntilReady_def w)
  from registerSingleton_replaces_registration
    [where fns = baseFns and key = "''A''" and g = 2 and s = ?s, OF a b] old
  show ?thesis by simp
qed

subsection \<open>Unregistered keys\<close>

text \<open>
  C3. A key with no registration in the singleton namespace makes \<open>getSingleton\<close> throw
  an \<^verbatim>\<open>Error\<close> whose message is "Singleton not registered: " followed by the key,
  and a key with no registration in the factory namespace makes \<open>getFactory\<close> throw an
  \<^verbatim>\<open>Error\<close> whose message is "Factory not registered: " followed by the key; the
  state is left as it was. After \<open>reset\<close> this is so for every key. The outcome is a
  throw, so no value (undefined or other) is returned.
\<close>

theorem unregistered_key_is_an_error:
  "(singletons s key = None \<longrightarrow>
      getSingleton fns key s = (Inl (Error (''Singleton not registered: '' @ key)), s)) \<and>
   (factories s key = None \<longrightarrow>
      getFactory fns key s = (Inl (Error (''Factory not registered: '' @ key)), s)) \<and>
   getSingleton fns key (snd (reset s)) =
     (Inl (Error (''Singleton not registered: '' @ key)), snd (reset s)) \<and>
   getFactory fns key (snd (reset s)) =
     (Inl (Error (''Factory not registered: '' @ key)), snd (reset s))"
  by (simp add: getSingleton_unregistered getFactory_unregistered)

theorem unregistered_key_is_an_error_witness:
  "singletons (newContainer (0::nat)) ''nonexistent'' = None \<and>
   factories (newContainer (0::nat)) ''nonexistent'' = None \<and>
   getSingleton baseFns ''nonexistent'' (newContainer 0) =
     (Inl (Error ''Singleton not registered: nonexistent''), newContainer 0) \<and>
   getFactory baseFns ''nonexistent'' (newContainer 0) =
     (Inl (Error ''Factory not registered: nonexistent''), newContainer 0) \<and>
   fst (getSingleton baseFns ''A'' (snd (registerSingleton ''A'' 0 (newContainer 0)))) =
     Inr (Obj 0) \<and>
   fst (getSingleton baseFns ''A'' (snd (reset (snd (registerSingleton ''A'' 0 (newContainer 0)))))) =
     Inl (Error ''Singleton not registered: A'')"
  using unregistered_key_is_an_error [of "newContainer (0::nat)" "''nonexistent''" baseFns]
    unregistered_key_is_an_error
      [of "snd (registerSingleton ''A'' 0 (newContainer (0::nat)))" "''A''" baseFns]
  by (simp add: newContainer_def getSingleton_def baseFns_def newObject_def)

subsection \<open>Reset\<close>

text \<open>
  C7. After any list of registrations, of either mode and from any state, one call of
  \<open>reset\<close> leaves both maps empty, and \<open>getSingleton\<close> and \<open>getFactory\<close> then
  throw the not-registered error for every key, the registered ones among them.
\<close>

theorem reset_clears_every_registration:
  "singletons (snd (reset (registerAll rs s))) = Map.empty \<and>
   factories (snd (reset (registerAll rs s))) = Map.empty \<and>
   getSingleton fns key (snd (reset (registerAll rs s))) =
     (Inl (Error (''Singleton not registered: '' @ key)), snd (reset (registerAll rs s))) \<and>
   getFactory fns key (snd (reset (registerAll rs s))) =
     (Inl (Error (''Factory not registered: '' @ key)), snd (reset (registerAll rs s)))"
  by (simp add: getSingleton_unregistered getFactory_unregistered)

theorem reset_clears_every_registration_witness:
  "singletons (registerAll [AsSingleton ''A'' 0, AsSingleton ''B'' 1, AsFactory ''C'' 0]
      (newContainer (0::nat))) ''B'' = Some 1 \<and>
   factories (registerAll [AsSingleton ''A'' 0, AsSingleton ''B'' 1, AsFactory ''C'' 0]
      (newContainer (0::nat))) ''C'' = Some 0 \<and>
   fst (getSingleton baseFns ''B''
     (snd (reset (registerAll [AsSingleton ''A'' 0, AsSingleton ''B'' 1, AsFactory ''C'' 0]
        (newContainer 0))))) = Inl (Error ''Singleton not registered: B'') \<and>
   fst (getFactory baseFns ''C''
     (snd (reset (registerAll [AsSingleton ''A'' 0, AsSingleton ''B'' 1, AsFactory ''C'' 0]
        (newContainer 0))))) = Inl (Error ''Factory not registered: C'')"
  using reset_clears_every_registration
    [of "[AsSingleton ''A'' 0, AsSingleton ''B'' 1, AsFactory ''C'' 0]"
        "newContainer (0::nat)" baseFns "''B''"]
    reset_clears_every_registration
    [of "[AsSingleton ''A'' 0, AsSingleton ''B'' 1, AsFactory ''C'' 0]"
        "newContainer (0::nat)" baseFns "''C''"]
  by (simp add: registerAll_def newContainer_def)

text \<open>
  C9. Calling \<open>reset\<close> twice in a row is calling it once: the second call returns
  normally and the state after it is the state after the first, with both maps empty.
\<close>

theorem reset_idempotent:
  "andThen reset reset s = reset s \<and>
   fst (reset (snd (reset s))) = Inr Undefined \<and>
   snd (reset (snd (reset s))) = snd (reset s) \<and>
   singletons (snd (reset (snd (reset s)))) = Map.empty \<and>
   factories (snd (reset (snd (reset s)))) = Map.empty"
  by (simp add: andThen_def reset_def)

theorem reset_idempotent_witness:
  "singletons (snd (registerSingleton ''A'' 0 (newContainer (0::nat)))) ''A'' = Some 0 \<and>
   andThen reset reset (snd (registerSingleton ''A'' 0 (newContainer (0::nat)))) =
     reset (snd (registerSingleton ''A'' 0 (newContainer 0))) \<and>
   singletons (snd (reset (snd (reset (snd (registerSingleton ''A'' 0 (newContainer (0::nat)))))))) ''A'' = None"
  using reset_idempotent [of "snd (registerSingleton ''A'' 0 (newContainer (0::nat)))"]
  by (simp add: newContainer_def)

subsection \<open>Factory registrations\<close>

text \<open>
  C4. With a factory \<open>f\<close> registered under the key in the factory namespace,
  \<open>getFactory\<close> is one call of \<open>f\<close>: its outcome and its state are those of the
  call, and the container stores nothing. A second \<open>getFactory\<close>, the registration
  still in place, is a second call of \<open>f\<close> in the state the first left, so when the two
  calls of \<open>f\<close> give different results the two \<open>getFactory\<close> calls do.
\<close>

theorem getFactory_invokes_once_per_call:
  assumes "factories s key = Some f"
    and "fns f s = (r1, s1)"
    and "factories s1 key = Some f"
    and "fns f s1 = (r2, s2)"
  shows "getFactory fns key s = (r1, s1) \<and> getFactory fns key s1 = (r2, s2) \<and>
    store (snd (getFactory fns key s)) = store s1 \<and>
    (r1 \<noteq> r2 \<longrightarrow> fst (getFactory fns key s) \<noteq> fst (getFactory fns key s1))"
  using assms by (simp add: getFactory_registered)

theorem getFactory_invokes_once_per_call_witness:
  "getFactory baseFns ''B'' (snd (registerFactory ''B'' 0 (newContainer 0))) =
     (Inr (Obj 0), (snd (registerFactory ''B'' 0 (newContainer 0)))\<lparr>world := 1\<rparr>) \<and>
   getFactory baseFns ''B'' ((snd (registerFactory ''B'' 0 (newContainer 0)))\<lparr>world := 1\<rparr>) =
     (Inr (Obj 1), (snd (registerFactory ''B'' 0 (newContainer 0)))\<lparr>world := 2\<rparr>)"
proof -
  let ?s = "snd (registerFactory ''B'' 0 (newContainer (0::nat)))"
  have reg: "factories ?s ''B'' = Some 0" by simp
  have one: "baseFns 0 ?s = (Inr (Obj 0), ?s\<lparr>world := 1\<rparr>)"
    by (simp add: baseFns_def newObject_def newContainer_def)
  have still: "factories (?s\<lparr>world := 1\<rparr>) ''B'' = Some 0" by simp
  have two: "baseFns 0 (?s\<lparr>world := 1\<rparr>) = (Inr (Obj 1), ?s\<lparr>world := 2\<rparr>)"
    by (simp add: baseFns_def newObject_def)
  from getFactory_invokes_once_per_call
    [where s = ?s and key = "''B''" and f = 0 and fns = baseFns and ?r1.0 = "Inr (Obj 0)"
       and ?s1.0 = "?s\<lparr>world := 1\<rparr>" and ?r2.0 = "Inr (Obj 1)"
       and ?s2.0 = "?s\<lparr>world := 2\<rparr>"]
    reg one still two
  show ?thesis by simp
qed

subsection \<open>Factories that throw\<close>

text \<open>
  The table \<open>selfFns\<close> satisfies the equation of the closure it stands for: the function
  under the reference 30 is the one that resolves the key through \<open>selfFns\<close> itself.
\<close>

lemma selfFns_is_the_closure:
  "selfFns 30 s = resolvesItselfThenThrows selfFns ''Cache'' s"
  by (simp add: selfFns_def nestedFns_def resolvesItselfThenThrows_def andThen_def
      getSingleton_def split: option.splits)

text \<open>
  C5, as amended. When the factory of a singleton that has no instance yet throws,
  \<open>getSingleton\<close> throws the same value and the state is exactly the one the factory
  left: \<open>getSingleton\<close> itself writes nothing. If the factory left the registration of
  the key and the singleton object as they were, the \<^verbatim>\<open>instance\<close> property is still
  absent after the call and the next \<open>getSingleton\<close> with the key calls the factory again.
  \<open>getFactory\<close> throws what its factory throws, in the state the factory left.
\<close>

theorem factory_error_propagates:
  "(singletons s key = Some a \<and> inst (store s a) = None \<and>
    fns (factory (store s a)) s = (Inl e, s') \<longrightarrow>
      getSingleton fns key s = (Inl e, s') \<and>
      (singletons s' key = Some a \<and> store s' a = store s a \<longrightarrow>
         inst (store (snd (getSingleton fns key s)) a) = None \<and>
         getSingleton fns key s' =
           (case fns (factory (store s a)) s' of
              (Inl e2, s2) \<Rightarrow> (Inl e2, s2)
            | (Inr v, s2) \<Rightarrow>
                (Inr v, s2\<lparr>store := (store s2)(a := (store s2 a)\<lparr>inst := Some v\<rparr>)\<rparr>)))) \<and>
   (factories s key = Some g \<and> fns g s = (Inl e, s') \<longrightarrow>
      getFactory fns key s = (Inl e, s'))"
  by (auto simp add: getSingleton_def getFactory_def readInstance_def split: sum.splits)

theorem factory_error_propagates_witness:
  "getSingleton baseFns ''Db'' (snd (registerSingleton ''Db'' 3 (newContainer 0))) =
     (Inl (Error ''connection refused''),
      (snd (registerSingleton ''Db'' 3 (newContainer 0)))\<lparr>world := 1\<rparr>) \<and>
   inst (store ((snd (registerSingleton ''Db'' 3 (newContainer (0::nat))))\<lparr>world := 1\<rparr>) 0) = None \<and>
   getSingleton baseFns ''Db'' ((snd (registerSingleton ''Db'' 3 (newContainer 0)))\<lparr>world := 1\<rparr>) =
     (Inl (Error ''connection refused''),
      (snd (registerSingleton ''Db'' 3 (newContainer 0)))\<lparr>world := 2\<rparr>) \<and>
   getFactory baseFns ''Db'' (snd (registerFactory ''Db'' 3 (newContainer 0))) =
     (Inl (Error ''connection refused''),
      (snd (registerFactory ''Db'' 3 (newContainer 0)))\<lparr>world := 1\<rparr>)"
proof -
  let ?s = "snd (registerSingleton ''Db'' 3 (newContainer (0::nat)))"
  let ?t = "snd (registerFactory ''Db'' 3 (newContainer (0::nat)))"
  have a: "singletons ?s ''Db'' = Some 0" "inst (store ?s 0) = None" "factory (store ?s 0) = 3"
    by (simp_all add: newContainer_def)
  have b: "baseFns 3 ?s = (Inl (Error ''connection refused''), ?s\<lparr>world := 1\<rparr>)"
    by (simp add: baseFns_def refuse_def newContainer_def)
  have c: "baseFns 3 (?s\<lparr>world := 1\<rparr>) = (Inl (Error ''connection refused''), ?s\<lparr>world := 2\<rparr>)"
    by (simp add: baseFns_def refuse_def)
  have d: "factories ?t ''Db'' = Some 3"
    "baseFns 3 ?t = (Inl (Error ''connection refused''), ?t\<lparr>world := 1\<rparr>)"
    by (simp_all add: baseFns_def refuse_def newContainer_def)
  from factory_error_propagates
    [of ?s "''Db''" 0 baseFns "Error ''connection refused''" "?s\<lparr>world := 1\<rparr>" 3]
    factory_error_propagates
    [of ?t "''Db''" 0 baseFns "Error ''connection refused''" "?t\<lparr>world := 1\<rparr>" 3]
    a b c d
  show ?thesis by simp
qed

text \<open>
  C5 as it is worded, without the condition on the factory, fails. The key "Cache" is
  registered with the closure under the reference 30 and resolved twice. The first call
  finds no instance and calls the factory; the factory resolves "Cache" itself, which
  calls the factory a second time, stores the object it returns (object 1) and returns;
  then the factory throws. \<open>getSingleton\<close> throws the same error, but the instance is
  now object 1, and the second \<open>getSingleton\<close> returns it without calling the factory:
  the call count stays 2.
\<close>

theorem factory_error_slot_filled_by_nested_call:
  "(let s0 = snd (registerSingleton ''Cache'' 30 (newContainer 0));
        (r1, s1) = getSingleton selfFns ''Cache'' s0;
        (r2, s2) = getSingleton selfFns ''Cache'' s1
    in singletons s0 ''Cache'' = Some 0 \<and> inst (store s0 0) = None \<and>
       selfFns (factory (store s0 0)) s0 = (Inl (Error ''connection refused''), s1) \<and>
       r1 = Inl (Error ''connection refused'') \<and>
       singletons s1 ''Cache'' = Some 0 \<and> inst (store s1 0) = Some (Obj 1) \<and> world s1 = 2 \<and>
       r2 = Inr (Obj 1) \<and> world s2 = 2)"
  by (simp add: registerSingleton_def getSingleton_def selfFns_def nestedFns_def
      resolvesItselfThenThrows_def andThen_def newObject_def newContainer_def)

subsection \<open>The two namespaces\<close>

text \<open>
  Resolving in one namespace commutes with registering in the other, for any two keys,
  provided the factory that the resolution calls commutes with that registration itself.
\<close>

lemma getSingleton_registerFactory_commute:
  assumes "\<forall>a. singletons s key = Some a \<longrightarrow>
      fns (factory (store s a)) (snd (registerFactory k g s)) =
        (case fns (factory (store s a)) s of (r, s') \<Rightarrow> (r, snd (registerFactory k g s')))"
  shows "getSingleton fns key (snd (registerFactory k g s)) =
      (case getSingleton fns key s of (r, s') \<Rightarrow> (r, snd (registerFactory k g s')))"
proof (cases "singletons s key")
  case None
  then show ?thesis by (simp add: getSingleton_def)
next
  case (Some a)
  with assms have fr: "fns (factory (store s a)) (snd (registerFactory k g s)) =
        (case fns (factory (store s a)) s of (r, s') \<Rightarrow> (r, snd (registerFactory k g s')))"
    by simp
  obtain r s' where call: "fns (factory (store s a)) s = (r, s')"
    by (cases "fns (factory (store s a)) s")
  show ?thesis
    using Some fr call
    by (cases r) (simp_all add: getSingleton_def registerFactory_def)
qed

lemma getFactory_registerSingleton_commute:
  assumes "\<forall>h. factories s key = Some h \<longrightarrow>
      fns h (snd (registerSingleton k f s)) =
        (case fns h s of (r, s') \<Rightarrow> (r, snd (registerSingleton k f s')))"
  shows "getFactory fns key (snd (registerSingleton k f s)) =
      (case getFactory fns key s of (r, s') \<Rightarrow> (r, snd (registerSingleton k f s')))"
  using assms by (cases "factories s key") (simp_all add: getFactory_def)


text \<open>
  C8. \<open>registerSingleton\<close> leaves the map of factories as it was, and \<open>registerFactory\<close>
  leaves the map of singletons and the singleton objects (with their instances) as they
  were. For the same key in both namespaces: when the factory registered under the key
  does not itself depend on the other namespace (calling it after the registration gives
  the result of calling it before and registering afterwards), then \<open>getFactory\<close> after
  \<open>registerSingleton\<close>, and \<open>getSingleton\<close> after \<open>registerFactory\<close>, give the outcome
  they gave without the registration, and the state they gave with the registration added.
\<close>

theorem namespaces_are_disjoint:
  "factories (snd (registerSingleton key f s)) = factories s \<and>
   singletons (snd (registerFactory key g s)) = singletons s \<and>
   store (snd (registerFactory key g s)) = store s \<and>
   ((\<forall>h. factories s key = Some h \<longrightarrow>
       fns h (snd (registerSingleton key f s)) =
         (case fns h s of (r, s') \<Rightarrow> (r, snd (registerSingleton key f s')))) \<longrightarrow>
    getFactory fns key (snd (registerSingleton key f s)) =
      (case getFactory fns key s of (r, s') \<Rightarrow> (r, snd (registerSingleton key f s')))) \<and>
   ((\<forall>a. singletons s key = Some a \<longrightarrow>
       fns (factory (store s a)) (snd (registerFactory key g s)) =
         (case fns (factory (store s a)) s of (r, s') \<Rightarrow> (r, snd (registerFactory key g s')))) \<longrightarrow>
    getSingleton fns key (snd (registerFactory key g s)) =
      (case getSingleton fns key s of (r, s') \<Rightarrow> (r, snd (registerFactory key g s'))))"
  using getSingleton_registerFactory_commute [of s key fns key g]
    getFactory_registerSingleton_commute [of s key fns key f]
  by simp

theorem namespaces_are_disjoint_witness:
  "fst (getFactory baseFns ''A''
     (snd (registerSingleton ''A'' 0 (snd (registerFactory ''A'' 1 (newContainer 0)))))) =
     Inr (Num 0) \<and>
   fst (getSingleton baseFns ''A''
     (snd (registerSingleton ''A'' 0 (snd (registerFactory ''A'' 1 (newContainer 0)))))) =
     Inr (Obj 0) \<and>
   fst (getSingleton baseFns ''A''
     (snd (registerFactory ''A'' 1
       (snd (getSingleton baseFns ''A'' (snd (registerSingleton ''A'' 0 (newContainer 0)))))))) =
     Inr (Obj 0) \<and>
   fst (getFactory baseFns ''A''
     (snd (registerFactory ''A'' 1
       (snd (getSingleton baseFns ''A'' (snd (registerSingleton ''A'' 0 (newContainer 0)))))))) =
     Inr (Num 0)"
proof -
  let ?T = "snd (registerFactory ''A'' 1 (newContainer (0::nat)))"
  let ?S = "snd (getSingleton baseFns ''A'' (snd (registerSingleton ''A'' 0 (newContainer (0::nat)))))"
  have T: "\<forall>h. factories ?T ''A'' = Some h \<longrightarrow>
      baseFns h (snd (registerSingleton ''A'' 0 ?T)) =
        (case baseFns h ?T of (r, s') \<Rightarrow> (r, snd (registerSingleton ''A'' 0 s')))"
    by (simp add: baseFns_def alwaysZero_def registerSingleton_def)
  have S: "\<forall>a. singletons ?S ''A'' = Some a \<longrightarrow>
      baseFns (factory (store ?S a)) (snd (registerFactory ''A'' 1 ?S)) =
        (case baseFns (factory (store ?S a)) ?S of
           (r, s') \<Rightarrow> (r, snd (registerFactory ''A'' 1 s')))"
    by (simp add: getSingleton_def baseFns_def newObject_def newContainer_def
        registerFactory_def)
  have eT: "fst (getFactory baseFns ''A'' ?T) = Inr (Num 0)"
    by (simp add: getFactory_def baseFns_def alwaysZero_def)
  have eS: "fst (getSingleton baseFns ''A'' ?S) = Inr (Obj 0)"
    by (simp add: getSingleton_def baseFns_def newObject_def newContainer_def)
  have direct:
    "fst (getSingleton baseFns ''A'' (snd (registerSingleton ''A'' 0 ?T))) = Inr (Obj 0)"
    "fst (getFactory baseFns ''A'' (snd (registerFactory ''A'' 1 ?S))) = Inr (Num 0)"
    by (simp_all add: getSingleton_def getFactory_def baseFns_def newObject_def alwaysZero_def
        newContainer_def)
  from namespaces_are_disjoint [of "''A''" 0 ?T 1 baseFns] T
  have "fst (getFactory baseFns ''A'' (snd (registerSingleton ''A'' 0 ?T))) =
      fst (getFactory baseFns ''A'' ?T)"
    by (simp add: case_prod_unfold)
  moreover from namespaces_are_disjoint [of "''A''" 0 ?S 1 baseFns] S
  have "fst (getSingleton baseFns ''A'' (snd (registerFactory ''A'' 1 ?S))) =
      fst (getSingleton baseFns ''A'' ?S)"
    by (simp add: case_prod_unfold)
  ultimately show ?thesis using eT eS direct by simp
qed

subsection \<open>Keys are not validated\<close>

text \<open>
  C10. For every string \<open>key\<close>, the empty string included, both registration methods
  return normally and store the registration under the key; \<open>getSingleton\<close> then gives the
  outcome of the factory registered, and \<open>getFactory\<close> is a call of the factory
  registered. The example after the theorem is the empty key.
\<close>

theorem empty_key_is_a_key:
  "fst (registerSingleton key f s) = Inr Undefined \<and>
   fst (registerFactory key g s) = Inr Undefined \<and>
   singletons (snd (registerSingleton key f s)) key = Some (fresh s) \<and>
   factories (snd (registerFactory key g s)) key = Some g \<and>
   fst (getSingleton fns key (snd (registerSingleton key f s))) =
     fst (fns f (snd (registerSingleton key f s))) \<and>
   getFactory fns key (snd (registerFactory key g s)) = fns g (snd (registerFactory key g s))"
proof -
  obtain r s' where "fns f (snd (registerSingleton key f s)) = (r, s')"
    by (cases "fns f (snd (registerSingleton key f s))")
  then have "fst (getSingleton fns key (snd (registerSingleton key f s))) =
      fst (fns f (snd (registerSingleton key f s)))"
    by (simp add: getSingleton_after_register split: sum.splits)
  then show ?thesis by (simp add: getFactory_registered)
qed

theorem empty_key_is_a_key_witness:
  "fst (registerSingleton '''' 0 (newContainer (0::nat))) = Inr Undefined \<and>
   fst (registerFactory '''' 0 (newContainer (0::nat))) = Inr Undefined \<and>
   fst (getSingleton baseFns '''' (snd (registerSingleton '''' 0 (newContainer 0)))) = Inr (Obj 0) \<and>
   fst (getFactory baseFns '''' (snd (registerFactory '''' 0 (newContainer 0)))) = Inr (Obj 0)"
  using empty_key_is_a_key [of "''''" 0 "newContainer (0::nat)" 0 baseFns]
  by (simp add: baseFns_def newObject_def newContainer_def)

end
